theory Spec2Isabelle
  imports Complex_Main "HOL-Library.AList"
begin

section \<open>Python values, dictionaries and exceptions\<close>

text \<open>
  Stage outputs are arbitrary Python values (\<^verbatim>\<open>dict[str, Any]\<close>). The values the
  pipeline handles are modelled by one datatype. A finite \<^verbatim>\<open>float\<close> is the real number
  it denotes, the other floats are \<open>VNonFinite\<close>; no arithmetic on floats is defined
  here (the numeric library is a parameter, see below). A \<^verbatim>\<open>dict\<close> keeps insertion
  order, so it is an association list; a list and a tuple are both \<open>VList\<close>. A value
  is a snapshot: a container that holds itself is not represented.
\<close>

datatype nonfinite = PosInf | NegInf | NaN

datatype pyval =
    VNone
  | VBool bool
  | VInt int
  | VFloat real
  | VNonFinite nonfinite
  | VStr string
  | VList "pyval list"
  | VDict "(string \<times> pyval) list"

type_synonym pydict = "(string \<times> pyval) list"

text \<open>
  Every exception the modelled code raises is a value; the string is the message
  (\<^verbatim>\<open>str(e)\<close>). \<open>OtherException\<close> (class name, message) stands for whatever a
  user-supplied stage action or the plotting backend may raise.
\<close>

datatype error =
    ValueError string
  | TypeError string
  | AttributeError string
  | OtherException string string

fun is_ValueError_or_TypeError :: "error \<Rightarrow> bool" where
  "is_ValueError_or_TypeError (ValueError m) = True"
| "is_ValueError_or_TypeError (TypeError m) = True"
| "is_ValueError_or_TypeError e = False"

fun str_of_error :: "error \<Rightarrow> string" where
  "str_of_error (ValueError m) = m"
| "str_of_error (TypeError m) = m"
| "str_of_error (AttributeError m) = m"
| "str_of_error (OtherException c m) = m"

text \<open>Truth value testing (\<^verbatim>\<open>if not x\<close>): None, False, zero and empty containers are false.\<close>

fun truthy :: "pyval \<Rightarrow> bool" where
  "truthy VNone = False"
| "truthy (VBool b) = b"
| "truthy (VInt i) = (i \<noteq> 0)"
| "truthy (VFloat r) = (r \<noteq> 0)"
| "truthy (VNonFinite x) = True"
| "truthy (VStr s) = (s \<noteq> [])"
| "truthy (VList vs) = (vs \<noteq> [])"
| "truthy (VDict d) = (d \<noteq> [])"

fun type_name :: "pyval \<Rightarrow> string" where
  "type_name VNone = ''NoneType''"
| "type_name (VBool b) = ''bool''"
| "type_name (VInt i) = ''int''"
| "type_name (VFloat r) = ''float''"
| "type_name (VNonFinite x) = ''float''"
| "type_name (VStr s) = ''str''"
| "type_name (VList vs) = ''list''"
| "type_name (VDict d) = ''dict''"

definition quoted :: "string \<Rightarrow> string" where
  "quoted s = CHR 0x27 # s @ [CHR 0x27]"

fun join :: "string \<Rightarrow> string list \<Rightarrow> string" where
  "join sep [] = []"
| "join sep [x] = x"
| "join sep (x # y # ys) = x @ sep @ join sep (y # ys)"

definition no_attribute :: "pyval \<Rightarrow> string \<Rightarrow> error" where
  "no_attribute v a = AttributeError (quoted (type_name v) @ '' object has no attribute '' @ quoted a)"

text \<open>\<^verbatim>\<open>k in d\<close>, \<^verbatim>\<open>d[k] = v\<close> on a dict: an existing key keeps its position, a new key
  is appended.\<close>

definition dict_contains :: "pydict \<Rightarrow> string \<Rightarrow> bool" where
  "dict_contains d k = (k \<in> fst ` set d)"

definition dict_set :: "pydict \<Rightarrow> string \<Rightarrow> pyval \<Rightarrow> pydict" where
  "dict_set d k v = AList.update k v d"


text \<open>\<^verbatim>\<open>x.get(k)\<close> and \<^verbatim>\<open>x.get(k, default)\<close> on an arbitrary value: only a dict has the
  method, every other value raises AttributeError.\<close>

fun py_get :: "pyval \<Rightarrow> string \<Rightarrow> pyval \<Rightarrow> error + pyval" where
  "py_get (VDict d) k dflt = (case map_of d k of None \<Rightarrow> Inr dflt | Some v \<Rightarrow> Inr v)"
| "py_get v k dflt = Inl (no_attribute v ''get'')"

text \<open>\<^verbatim>\<open>len(x)\<close>: defined on strings, lists and dicts.\<close>

fun py_len :: "pyval \<Rightarrow> error + int" where
  "py_len (VStr s) = Inr (int (length s))"
| "py_len (VList vs) = Inr (int (length vs))"
| "py_len (VDict d) = Inr (int (length d))"
| "py_len v = Inl (TypeError (''object of type '' @ quoted (type_name v) @ '' has no len()''))"

section \<open>metrics.py\<close>

subsection \<open>The numeric library\<close>

text \<open>
  numpy and the builtin \<^verbatim>\<open>round\<close> are external to the repository and compute in
  64-bit floating point. They are parameters of the model: \<open>np_array lib data\<close> is
  \<^verbatim>\<open>np.array(data, dtype=float)\<close>, an array of some type \<open>'a\<close> or the exception raised;
  \<open>np_min lib a\<close> is \<^verbatim>\<open>float(np.min(a))\<close>, and so on for the other statistics;
  \<open>py_round lib x n\<close> is \<^verbatim>\<open>round(x, n)\<close>. Nothing is assumed of them.
\<close>

record 'a numerics =
  np_array :: "pyval \<Rightarrow> error + 'a"
  np_min :: "'a \<Rightarrow> pyval"
  np_max :: "'a \<Rightarrow> pyval"
  np_median :: "'a \<Rightarrow> pyval"
  np_std :: "'a \<Rightarrow> pyval"
  np_percentile :: "'a \<Rightarrow> int \<Rightarrow> pyval"
  py_round :: "pyval \<Rightarrow> int \<Rightarrow> pyval"

subsection \<open>MetricsResult and MetricsCalculator\<close>

record MetricsResult =
  min_m :: pyval
  max_m :: pyval
  median :: pyval
  std_dev :: pyval
  percentile_90 :: pyval
  percentile_95 :: pyval
  percentile_99 :: pyval

text \<open>\<open>calculate_metrics\<close> turns the ValueError and the TypeError of the conversion into
  its own ValueError; any other exception of the conversion passes through.\<close>

definition calculate_metrics :: "'a numerics \<Rightarrow> pyval \<Rightarrow> error + MetricsResult" where
  "calculate_metrics lib data =
     (if \<not> truthy data then Inl (ValueError ''Cannot calculate metrics for empty dataset'')
      else case np_array lib data of
        Inl e \<Rightarrow>
          (if is_ValueError_or_TypeError e
           then Inl (ValueError ''Input data must contain only numerical values'')
           else Inl e)
      | Inr np_data \<Rightarrow>
          Inr \<lparr> min_m = np_min lib np_data,
                max_m = np_max lib np_data,
                median = np_median lib np_data,
                std_dev = np_std lib np_data,
                percentile_90 = np_percentile lib np_data 90,
                percentile_95 = np_percentile lib np_data 95,
                percentile_99 = np_percentile lib np_data 99 \<rparr>)"

definition format_metrics :: "'a numerics \<Rightarrow> MetricsResult \<Rightarrow> pydict" where
  "format_metrics lib metrics =
     [(''min'', py_round lib (min_m metrics) 2),
      (''max'', py_round lib (max_m metrics) 2),
      (''median'', py_round lib (median metrics) 2),
      (''std_dev'', py_round lib (std_dev metrics) 2),
      (''p90'', py_round lib (percentile_90 metrics) 2),
      (''p95'', py_round lib (percentile_95 metrics) 2),
      (''p99'', py_round lib (percentile_99 metrics) 2)]"

definition process_metrics :: "'a numerics \<Rightarrow> pyval \<Rightarrow> error + pydict" where
  "process_metrics lib data =
     (case calculate_metrics lib data of
        Inl e \<Rightarrow> Inl e
      | Inr metrics \<Rightarrow> Inr (format_metrics lib metrics))"

subsection \<open>A numeric library in exact arithmetic\<close>

text \<open>
  One instance of the parameter, used to evaluate the stage on the small samples of the
  examples below: the statistics by their textbook definitions over the reals
  (\<^verbatim>\<open>np.percentile\<close> by linear interpolation between the closest ranks, its default)
  and \<^verbatim>\<open>round\<close> to the nearest multiple of a power of ten, a tie going to the even
  one. The conversion takes a flat sequence of Python numbers or a single number
  (numpy accepts more, numeric text among it). The instance serves to evaluate the
  stages on small samples; what is proved of the metrics in general is proved for
  every numeric library.
\<close>

fun as_number :: "pyval \<Rightarrow> real option" where
  "as_number (VInt i) = Some (real_of_int i)"
| "as_number (VFloat r) = Some r"
| "as_number (VBool b) = Some (if b then 1 else 0)"
| "as_number v = None"

fun ex_array :: "pyval \<Rightarrow> error + real list" where
  "ex_array (VList vs) =
     (if list_all (\<lambda>v. as_number v \<noteq> None) vs then Inr (map (\<lambda>v. the (as_number v)) vs)
      else Inl (ValueError ''could not convert to float''))"
| "ex_array v =
     (case as_number v of
        None \<Rightarrow> Inl (ValueError ''could not convert to float'')
      | Some r \<Rightarrow> Inr [r])"

definition ex_mean :: "real list \<Rightarrow> real" where
  "ex_mean xs = sum_list xs / real (length xs)"

definition ex_median :: "real list \<Rightarrow> real" where
  "ex_median xs =
     (let s = sort xs; n = length s
      in if odd n then s ! (n div 2) else (s ! (n div 2 - 1) + s ! (n div 2)) / 2)"

definition ex_std :: "real list \<Rightarrow> real" where
  "ex_std xs = sqrt (ex_mean (map (\<lambda>x. (x - ex_mean xs)\<^sup>2) xs))"

definition ex_percentile :: "real list \<Rightarrow> int \<Rightarrow> real" where
  "ex_percentile xs q =
     (let s = sort xs; n = length s;
          h = real (n - 1) * real_of_int q / 100;
          lo = nat \<lfloor>h\<rfloor>;
          hi = min (lo + 1) (n - 1)
      in s ! lo + (h - real lo) * (s ! hi - s ! lo))"

definition round_half_even :: "real \<Rightarrow> int" where
  "round_half_even r =
     (let f = \<lfloor>r\<rfloor>; d = r - of_int f
      in if d < 1 / 2 then f else if 1 / 2 < d then f + 1 else if even f then f else f + 1)"

fun ex_round :: "pyval \<Rightarrow> int \<Rightarrow> pyval" where
  "ex_round (VFloat x) n = VFloat (of_int (round_half_even (x * 10 ^ nat n)) / 10 ^ nat n)"
| "ex_round v n = v"

definition exact_numerics :: "real list numerics" where
  "exact_numerics =
     \<lparr> np_array = ex_array,
       np_min = (\<lambda>xs. VFloat (Min (set xs))),
       np_max = (\<lambda>xs. VFloat (Max (set xs))),
       np_median = (\<lambda>xs. VFloat (ex_median xs)),
       np_std = (\<lambda>xs. VFloat (ex_std xs)),
       np_percentile = (\<lambda>xs q. VFloat (ex_percentile xs q)),
       py_round = ex_round \<rparr>"

section \<open>stages.py\<close>

subsection \<open>calculate\_metrics\_stage\<close>

text \<open>
  The search loop over \<^verbatim>\<open>['send_batch', 'read_log']\<close>: \<open>response_times\<close> starts as
  None, is overwritten at every key that is present, and the loop stops at the first
  truthy value. \<^verbatim>\<open>results[stage_name].get(...)\<close> raises AttributeError when the entry is
  not a dict.
\<close>

fun find_response_times :: "pydict \<Rightarrow> string list \<Rightarrow> pyval \<Rightarrow> error + pyval" where
  "find_response_times results [] response_times = Inr response_times"
| "find_response_times results (stage_name # rest) response_times =
     (case map_of results stage_name of
        None \<Rightarrow> find_response_times results rest response_times
      | Some entry \<Rightarrow>
          (case py_get entry ''response_times'' VNone of
             Inl e \<Rightarrow> Inl e
           | Inr rt \<Rightarrow> if truthy rt then Inr rt else find_response_times results rest rt))"

definition error_result :: "error \<Rightarrow> pyval" where
  "error_result e = VDict [(''status'', VStr ''error''), (''error'', VStr (str_of_error e))]"

definition calculate_metrics_stage :: "'a numerics \<Rightarrow> pydict \<Rightarrow> error + pyval" where
  "calculate_metrics_stage lib results =
     (case find_response_times results [''send_batch'', ''read_log''] VNone of
        Inl e \<Rightarrow> Inl e
      | Inr response_times \<Rightarrow>
          if \<not> truthy response_times then Inl (ValueError ''No response times found in results'')
          else
            (case process_metrics lib response_times of
               Inl e \<Rightarrow> Inr (error_result e)
             | Inr metrics \<Rightarrow>
                 (case py_len response_times of
                    Inl e \<Rightarrow> Inr (error_result e)
                  | Inr n \<Rightarrow>
                      Inr (VDict
                        [(''metrics'', VDict metrics),
                         (''status'', VStr ''success''),
                         (''sample_size'', VInt n),
                         (''source'', VStr (if dict_contains results ''send_batch''
                                             then ''send_batch'' else ''read_log'')),
                         (''response_times'', response_times)]))))"

subsection \<open>create\_graphs\_stage and the grapher (graph.py)\<close>

text \<open>
  The drawing itself (matplotlib, the timestamped file name, writing the PNG) is an
  external collaborator. It is a parameter: two functions that take the samples and the
  title, act on an arbitrary world state \<open>'w\<close> (the file system among it) and return the
  file path or raise. \<open>create_scatter_plot\<close> and \<open>create_multi_plot\<close> are the guards and
  the exception wrapping that graph.py puts around the drawing. The constructor of the
  grapher only sets plotting styles and is not modelled.
\<close>

record 'w plot_backend =
  draw_scatter :: "pyval \<Rightarrow> string \<Rightarrow> 'w \<Rightarrow> (error + string) \<times> 'w"
  draw_multi :: "pyval \<Rightarrow> string \<Rightarrow> 'w \<Rightarrow> (error + string) \<times> 'w"

definition create_scatter_plot ::
  "'w plot_backend \<Rightarrow> pyval \<Rightarrow> string \<Rightarrow> 'w \<Rightarrow> (error + string) \<times> 'w" where
  "create_scatter_plot backend response_times title w =
     (if \<not> truthy response_times then (Inl (ValueError ''No response times provided for plotting''), w)
      else case draw_scatter backend response_times title w of
        (Inl e, w') \<Rightarrow> (Inl (ValueError (''Error creating scatter plot: '' @ str_of_error e)), w')
      | (Inr filepath, w') \<Rightarrow> (Inr filepath, w'))"

definition create_multi_plot ::
  "'w plot_backend \<Rightarrow> pyval \<Rightarrow> string \<Rightarrow> 'w \<Rightarrow> (error + string) \<times> 'w" where
  "create_multi_plot backend response_times title w =
     (if \<not> truthy response_times then (Inl (ValueError ''No response times provided for plotting''), w)
      else case draw_multi backend response_times title w of
        (Inl e, w') \<Rightarrow> (Inl (ValueError (''Error creating multi-plot: '' @ str_of_error e)), w')
      | (Inr filepath, w') \<Rightarrow> (Inr filepath, w'))"

text \<open>\<^verbatim>\<open>source.replace('_', ' ').title()\<close> on ASCII text: a letter is upper-cased after a
  character that is not a letter and lower-cased after a letter. A \<open>source\<close> that is not
  a string has no \<^verbatim>\<open>replace\<close>.\<close>

definition is_upper :: "char \<Rightarrow> bool" where
  "is_upper c = (65 \<le> (of_char c :: nat) \<and> (of_char c :: nat) \<le> 90)"

definition is_lower :: "char \<Rightarrow> bool" where
  "is_lower c = (97 \<le> (of_char c :: nat) \<and> (of_char c :: nat) \<le> 122)"

definition to_upper :: "char \<Rightarrow> char" where
  "to_upper c = (if is_lower c then char_of ((of_char c :: nat) - 32) else c)"

definition to_lower :: "char \<Rightarrow> char" where
  "to_lower c = (if is_upper c then char_of ((of_char c :: nat) + 32) else c)"

fun title_from :: "bool \<Rightarrow> string \<Rightarrow> string" where
  "title_from after_letter [] = []"
| "title_from after_letter (c # cs) =
     (if is_upper c \<or> is_lower c
      then (if after_letter then to_lower c else to_upper c) # title_from True cs
      else c # title_from False cs)"

definition source_title :: "pyval \<Rightarrow> error + string" where
  "source_title source =
     (case source of
        VStr s \<Rightarrow> Inr (title_from False (map (\<lambda>c. if c = CHR ''_'' then CHR '' '' else c) s))
      | v \<Rightarrow> Inl (no_attribute v ''replace''))"

definition create_graphs_stage ::
  "'w plot_backend \<Rightarrow> pydict \<Rightarrow> 'w \<Rightarrow> (error + pyval) \<times> 'w" where
  "create_graphs_stage backend results w =
     (let metrics_result = (case map_of results ''calculate_metrics'' of None \<Rightarrow> VDict [] | Some v \<Rightarrow> v)
      in case py_get metrics_result ''response_times'' VNone of
        Inl e \<Rightarrow> (Inl e, w)
      | Inr response_times \<Rightarrow>
         (case py_get metrics_result ''source'' (VStr ''unknown'') of
            Inl e \<Rightarrow> (Inl e, w)
          | Inr source \<Rightarrow>
             if \<not> truthy response_times
             then (Inl (ValueError ''No response times found in metrics results''), w)
             else
               (case source_title source of
                  Inl e \<Rightarrow> (Inr (error_result e), w)
                | Inr t \<Rightarrow>
                   (case create_scatter_plot backend response_times
                           (''Response Times Over Time - '' @ t) w of
                      (Inl e, w1) \<Rightarrow> (Inr (error_result e), w1)
                    | (Inr scatter_plot_path, w1) \<Rightarrow>
                       (case create_multi_plot backend response_times
                               (''Response Time Analysis - '' @ t) w1 of
                          (Inl e, w2) \<Rightarrow> (Inr (error_result e), w2)
                        | (Inr analysis_plot_path, w2) \<Rightarrow>
                           (Inr (VDict
                              [(''status'', VStr ''success''),
                               (''graphs'', VDict
                                  [(''scatter_plot'', VStr scatter_plot_path),
                                   (''analysis_plot'', VStr analysis_plot_path)])]), w2))))))"

subsection \<open>Stage and the simulated stage actions\<close>

text \<open>
  A stage action is an arbitrary callable of one argument. Python hands it the object
  itself, so the action may edit a dict or list it is given. An action is modelled as a
  function of the argument and the world \<open>'w\<close> (console, files, random numbers) that
  yields three things: the value returned or the exception raised, the argument as the
  call leaves it, and the world. The stage list and the Stage objects themselves are
  taken not to change during a run. Console output of the library's actions is not
  modelled.
\<close>

type_synonym 'w action = "pyval \<Rightarrow> 'w \<Rightarrow> (error + pyval) \<times> pyval \<times> 'w"

record 'w Stage =
  name :: string
  action :: "'w action"

definition execute :: "'w Stage \<Rightarrow> 'w action" where
  "execute stage arg w = action stage arg w"

definition connect_stage :: "'w action" where
  "connect_stage app_name w = (Inr (VBool True), app_name, w)"




section \<open>test\_factory.py\<close>

subsection \<open>The three test kinds\<close>

text \<open>
  Each \<open>run\<close> starts from an empty dict and walks the stages in order; an exception of
  a stage leaves the loop at once. The loops are written out as in the source, with the
  local variables as arguments. \<open>results\<close> is one dict for the whole run and
  \<open>log_path\<close> and \<open>batch_data\<close> are the caller's objects: a stage that is handed one
  of them may have edited it, and the loop goes on with the object as the call left it
  (\<open>live\<close>: an edited dict is still a dict). \<open>app_name\<close> is a string and cannot be
  edited.
\<close>

definition live :: "pyval \<Rightarrow> pydict \<Rightarrow> pydict" where
  "live after results = (case after of VDict d \<Rightarrow> d | _ \<Rightarrow> results)"

fun ReplayTest_loop ::
  "string \<Rightarrow> pyval \<Rightarrow> pyval \<Rightarrow> pydict \<Rightarrow> 'w Stage list \<Rightarrow> 'w \<Rightarrow> (error + pydict) \<times> 'w" where
  "ReplayTest_loop app_name log_path batch_data results [] w = (Inr results, w)"
| "ReplayTest_loop app_name log_path batch_data results (stage # stages) w =
     (if name stage = ''connect'' then
        (case execute stage (VStr app_name) w of
           (Inl e, after, w') \<Rightarrow> (Inl e, w')
         | (Inr v, after, w') \<Rightarrow>
             ReplayTest_loop app_name log_path batch_data
               (dict_set results (name stage) v) stages w')
      else if name stage = ''get_log'' then
        (case execute stage (VStr app_name) w of
           (Inl e, after, w') \<Rightarrow> (Inl e, w')
         | (Inr v, after, w') \<Rightarrow>
             ReplayTest_loop app_name log_path batch_data
               (dict_set results (name stage) v) stages w')
      else if name stage = ''read_log'' then
        (case execute stage log_path w of
           (Inl e, after, w') \<Rightarrow> (Inl e, w')
         | (Inr v, after, w') \<Rightarrow>
             ReplayTest_loop app_name after batch_data
               (dict_set results (name stage) v) stages w')
      else if name stage = ''inject_data'' then
        (case execute stage batch_data w of
           (Inl e, after, w') \<Rightarrow> (Inl e, w')
         | (Inr v, after, w') \<Rightarrow>
             ReplayTest_loop app_name log_path after
               (dict_set results (name stage) v) stages w')
      else
        (case execute stage (VDict results) w of
           (Inl e, after, w') \<Rightarrow> (Inl e, w')
         | (Inr v, after, w') \<Rightarrow>
             ReplayTest_loop app_name log_path batch_data
               (dict_set (live after results) (name stage) v) stages w'))"

definition ReplayTest_run ::
  "string \<Rightarrow> 'w Stage list \<Rightarrow> pyval \<Rightarrow> pyval \<Rightarrow> pydict \<Rightarrow> 'w \<Rightarrow> (error + pydict) \<times> 'w" where
  "ReplayTest_run app_name stages log_path batch_data kwargs w =
     ReplayTest_loop app_name log_path batch_data [] stages w"

fun PerformanceTest_loop ::
  "string \<Rightarrow> pyval \<Rightarrow> pydict \<Rightarrow> 'w Stage list \<Rightarrow> 'w \<Rightarrow> (error + pydict) \<times> 'w" where
  "PerformanceTest_loop app_name batch_data results [] w = (Inr results, w)"
| "PerformanceTest_loop app_name batch_data results (stage # stages) w =
     (if name stage = ''connect'' then
        (case execute stage (VStr app_name) w of
           (Inl e, after, w') \<Rightarrow> (Inl e, w')
         | (Inr v, after, w') \<Rightarrow>
             PerformanceTest_loop app_name batch_data (dict_set results (name stage) v) stages w')
      else if name stage = ''send_batch'' then
        (case execute stage batch_data w of
           (Inl e, after, w') \<Rightarrow> (Inl e, w')
         | (Inr v, after, w') \<Rightarrow>
             PerformanceTest_loop app_name after (dict_set results (name stage) v) stages w')
      else
        (case execute stage (VDict results) w of
           (Inl e, after, w') \<Rightarrow> (Inl e, w')
         | (Inr v, after, w') \<Rightarrow>
             PerformanceTest_loop app_name batch_data
               (dict_set (live after results) (name stage) v) stages w'))"

definition PerformanceTest_run ::
  "string \<Rightarrow> 'w Stage list \<Rightarrow> pyval \<Rightarrow> pydict \<Rightarrow> 'w \<Rightarrow> (error + pydict) \<times> 'w" where
  "PerformanceTest_run app_name stages batch_data kwargs w =
     PerformanceTest_loop app_name batch_data [] stages w"

fun RecoveryTest_loop ::
  "string \<Rightarrow> pydict \<Rightarrow> 'w Stage list \<Rightarrow> 'w \<Rightarrow> (error + pydict) \<times> 'w" where
  "RecoveryTest_loop app_name results [] w = (Inr results, w)"
| "RecoveryTest_loop app_name results (stage # stages) w =
     (if name stage = ''connect'' then
        (case execute stage (VStr app_name) w of
           (Inl e, after, w') \<Rightarrow> (Inl e, w')
         | (Inr v, after, w') \<Rightarrow>
             RecoveryTest_loop app_name (dict_set results (name stage) v) stages w')
      else if name stage = ''read_log'' then
        (case execute stage (VStr ''dummy_recovery_log.txt'') w of
           (Inl e, after, w') \<Rightarrow> (Inl e, w')
         | (Inr v, after, w') \<Rightarrow>
             RecoveryTest_loop app_name (dict_set results (name stage) v) stages w')
      else
        (case execute stage (VDict results) w of
           (Inl e, after, w') \<Rightarrow> (Inl e, w')
         | (Inr v, after, w') \<Rightarrow>
             RecoveryTest_loop app_name (dict_set (live after results) (name stage) v) stages w'))"

definition RecoveryTest_run ::
  "string \<Rightarrow> 'w Stage list \<Rightarrow> pydict \<Rightarrow> 'w \<Rightarrow> (error + pydict) \<times> 'w" where
  "RecoveryTest_run app_name stages kwargs w = RecoveryTest_loop app_name [] stages w"

text \<open>
  The call \<^verbatim>\<open>test.run(app_name, stages, **kwargs)\<close> on an instance of one of the three
  classes: Python binds the keywords a signature names and collects the others in
  \<^verbatim>\<open>**kwargs\<close>; a missing required parameter is a TypeError before the body runs (the
  message is that of CPython 3.10 and later). \<open>kwargs\<close> are the keywords of a call that
  Python accepts: a keyword \<open>self\<close>, \<open>app_name\<close> or \<open>stages\<close> repeats a positional
  argument and is refused before \<open>run\<close> is entered (\<open>accepted_keywords\<close> below).
\<close>

datatype test_kind = ReplayTest | PerformanceTest | RecoveryTest

fun kind_name :: "test_kind \<Rightarrow> string" where
  "kind_name ReplayTest = ''ReplayTest''"
| "kind_name PerformanceTest = ''PerformanceTest''"
| "kind_name RecoveryTest = ''RecoveryTest''"

definition missing_arguments :: "test_kind \<Rightarrow> string list \<Rightarrow> error" where
  "missing_arguments kind names =
     TypeError (kind_name kind @ ''.run() missing ''
       @ (if length names = 1 then ''1 required positional argument: ''
          else ''2 required positional arguments: '')
       @ join '' and '' (map quoted names))"

fun run :: "test_kind \<Rightarrow> string \<Rightarrow> 'w Stage list \<Rightarrow> pydict \<Rightarrow> 'w \<Rightarrow> (error + pydict) \<times> 'w" where
  "run ReplayTest app_name stages kwargs w =
     (case map_of kwargs ''log_path'' of
        None \<Rightarrow>
         (case map_of kwargs ''batch_data'' of
            None \<Rightarrow> (Inl (missing_arguments ReplayTest [''log_path'', ''batch_data'']), w)
          | Some batch_data \<Rightarrow> (Inl (missing_arguments ReplayTest [''log_path'']), w))
      | Some log_path \<Rightarrow>
         (case map_of kwargs ''batch_data'' of
            None \<Rightarrow> (Inl (missing_arguments ReplayTest [''batch_data'']), w)
          | Some batch_data \<Rightarrow>
             ReplayTest_run app_name stages log_path batch_data
               (AList.delete ''log_path'' (AList.delete ''batch_data'' kwargs)) w))"
| "run PerformanceTest app_name stages kwargs w =
     (case map_of kwargs ''batch_data'' of
        None \<Rightarrow> (Inl (missing_arguments PerformanceTest [''batch_data'']), w)
      | Some batch_data \<Rightarrow>
          PerformanceTest_run app_name stages batch_data (AList.delete ''batch_data'' kwargs) w)"
| "run RecoveryTest app_name stages kwargs w = RecoveryTest_run app_name stages kwargs w"

subsection \<open>TestFactory\<close>

text \<open>
  What \<open>register\<close> is given is a class. A class is one of the three test kinds above
  or any other class, of which the model keeps the \<^verbatim>\<open>__name__\<close>, whether it inherits
  from \<open>Test\<close>, and whether it defines \<open>run\<close>. The class-level \<^verbatim>\<open>_registry\<close> dict is
  passed in and returned. Both failures of \<open>register\<close> are a ValueError; the two
  messages are named after the error kinds they stand for. \<open>create_test\<close> instantiates
  the class found: a subclass of the abstract class \<open>Test\<close> that leaves \<open>run\<close>
  undefined cannot be instantiated, a TypeError that the \<^verbatim>\<open>except KeyError\<close> does not
  catch (message of CPython 3.9 to 3.11). The class returned stands for the fresh
  instance.
\<close>

datatype py_class = TestClass test_kind | OtherClass string bool bool

fun class_name :: "py_class \<Rightarrow> string" where
  "class_name (TestClass kind) = kind_name kind"
| "class_name (OtherClass n inherits defines_run) = n"

fun issubclass_Test :: "py_class \<Rightarrow> bool" where
  "issubclass_Test (TestClass kind) = True"
| "issubclass_Test (OtherClass n inherits defines_run) = inherits"

fun defines_run :: "py_class \<Rightarrow> bool" where
  "defines_run (TestClass kind) = True"
| "defines_run (OtherClass n inherits has_run) = has_run"

type_synonym registry = "(string \<times> py_class) list"

definition InvalidCapability :: "py_class \<Rightarrow> error" where
  "InvalidCapability test_class = ValueError (''Class '' @ class_name test_class @ '' must inherit from Test'')"

definition DuplicateKind :: "string \<Rightarrow> error" where
  "DuplicateKind test_type = ValueError (''Test type '' @ quoted test_type @ '' is already registered'')"

definition register :: "registry \<Rightarrow> string \<Rightarrow> py_class \<Rightarrow> error + registry" where
  "register registry test_type test_class =
     (if \<not> issubclass_Test test_class then Inl (InvalidCapability test_class)
      else if test_type \<in> fst ` set registry then Inl (DuplicateKind test_type)
      else Inr (AList.update test_type test_class registry))"

definition unregister :: "registry \<Rightarrow> string \<Rightarrow> registry" where
  "unregister registry test_type = AList.delete test_type registry"

definition get_registered_types :: "registry \<Rightarrow> string list" where
  "get_registered_types registry = map fst registry"

definition UnknownKind :: "registry \<Rightarrow> string \<Rightarrow> error" where
  "UnknownKind registry test_type =
     ValueError (''Unknown test type: '' @ test_type @ ''. Available types are: ''
                 @ join '', '' (get_registered_types registry))"

definition cannot_instantiate :: "py_class \<Rightarrow> error" where
  "cannot_instantiate test_class =
     TypeError (''Can'' @ [CHR 0x27] @ ''t instantiate abstract class '' @ class_name test_class
                @ '' with abstract method run'')"

definition create_test :: "registry \<Rightarrow> string \<Rightarrow> error + py_class" where
  "create_test registry test_type =
     (case map_of registry test_type of
        Some test_class \<Rightarrow>
          (if issubclass_Test test_class \<and> \<not> defines_run test_class
           then Inl (cannot_instantiate test_class)
           else Inr test_class)
      | None \<Rightarrow> Inl (UnknownKind registry test_type))"

text \<open>The registry after the module's three \<^verbatim>\<open>TestFactory.register\<close> calls.\<close>

definition module_registry :: registry where
  "module_registry =
     [(''replay'', TestClass ReplayTest),
      (''performance'', TestClass PerformanceTest),
      (''recovery'', TestClass RecoveryTest)]"

section \<open>test\_suites.py\<close>

text \<open>
  The module has four strategy classes; an instance of one of them is true in
  \<^verbatim>\<open>if not strategy\<close>, as none defines \<^verbatim>\<open>__bool__\<close> or \<^verbatim>\<open>__len__\<close>.
  \<open>register_strategy\<close> checks nothing, so the table may hold any object: of another
  object the model keeps a description and its truth value (None is false, and so is an
  instance of a strategy subclass whose \<^verbatim>\<open>__bool__\<close> or \<^verbatim>\<open>__len__\<close> says so).
\<close>

datatype strategy =
    ReplayExecutionStrategy
  | PerformanceExecutionStrategy
  | RecoveryExecutionStrategy
  | NewExecutionStrategy

fun strategy_execute ::
  "strategy \<Rightarrow> test_kind \<Rightarrow> string \<Rightarrow> 'w Stage list \<Rightarrow> 'w \<Rightarrow> (error + pydict) \<times> 'w" where
  "strategy_execute ReplayExecutionStrategy test app_name stages w =
     run test app_name stages
       [(''log_path'', VStr ''app.log''),
        (''batch_data'', VDict [(''data'', VList [VInt 1, VInt 2, VInt 3])])] w"
| "strategy_execute PerformanceExecutionStrategy test app_name stages w =
     run test app_name stages
       [(''batch_data'', VDict [(''data'', VList [VInt 1, VInt 2, VInt 3])])] w"
| "strategy_execute RecoveryExecutionStrategy test app_name stages w =
     run test app_name stages [] w"
| "strategy_execute NewExecutionStrategy test app_name stages w =
     run test app_name stages [] w"









section \<open>Notions used to state the properties\<close>

text \<open>
  The three loops differ only in which object a stage of a given name is handed. A
  \<open>slot\<close> names that object; \<open>run_state\<close> holds the loop's variables; \<open>run_loop\<close> is
  the loop all three classes share once the slot is named, returning the variables at
  the end. The lemmas \<open>ReplayTest_loop_eq\<close>, \<open>PerformanceTest_loop_eq\<close> and
  \<open>RecoveryTest_loop_eq\<close> below prove that the loops written out above are its
  instances.
\<close>

datatype slot = AppName | LogPath | BatchData | Results | Constant pyval

fun slot_of :: "test_kind \<Rightarrow> string \<Rightarrow> slot" where
  "slot_of ReplayTest n =
     (if n = ''connect'' then AppName
      else if n = ''get_log'' then AppName
      else if n = ''read_log'' then LogPath
      else if n = ''inject_data'' then BatchData
      else Results)"
| "slot_of PerformanceTest n =
     (if n = ''connect'' then AppName
      else if n = ''send_batch'' then BatchData
      else Results)"
| "slot_of RecoveryTest n =
     (if n = ''connect'' then AppName
      else if n = ''read_log'' then Constant (VStr ''dummy_recovery_log.txt'')
      else Results)"

record run_state =
  the_log_path :: pyval
  the_batch_data :: pyval
  the_results :: pydict

fun handed :: "string \<Rightarrow> run_state \<Rightarrow> slot \<Rightarrow> pyval" where
  "handed app_name st AppName = VStr app_name"
| "handed app_name st LogPath = the_log_path st"
| "handed app_name st BatchData = the_batch_data st"
| "handed app_name st Results = VDict (the_results st)"
| "handed app_name st (Constant c) = c"

fun left_as :: "slot \<Rightarrow> pyval \<Rightarrow> run_state \<Rightarrow> run_state" where
  "left_as AppName after st = st"
| "left_as LogPath after st = st\<lparr>the_log_path := after\<rparr>"
| "left_as BatchData after st = st\<lparr>the_batch_data := after\<rparr>"
| "left_as Results after st = st\<lparr>the_results := live after (the_results st)\<rparr>"
| "left_as (Constant c) after st = st"

definition stage_argument :: "test_kind \<Rightarrow> string \<Rightarrow> run_state \<Rightarrow> 'w Stage \<Rightarrow> pyval" where
  "stage_argument kind app_name st s = handed app_name st (slot_of kind (name s))"

definition stored :: "test_kind \<Rightarrow> 'w Stage \<Rightarrow> pyval \<Rightarrow> pyval \<Rightarrow> run_state \<Rightarrow> run_state" where
  "stored kind s v after st =
     (let st' = left_as (slot_of kind (name s)) after st
      in st'\<lparr>the_results := dict_set (the_results st') (name s) v\<rparr>)"

fun run_loop ::
  "test_kind \<Rightarrow> string \<Rightarrow> run_state \<Rightarrow> 'w Stage list \<Rightarrow> 'w \<Rightarrow> (error + run_state) \<times> 'w" where
  "run_loop kind app_name st [] w = (Inr st, w)"
| "run_loop kind app_name st (s # stages) w =
     (case action s (stage_argument kind app_name st s) w of
        (Inl e, after, w') \<Rightarrow> (Inl e, w')
      | (Inr v, after, w') \<Rightarrow> run_loop kind app_name (stored kind s v after st) stages w')"

definition returned :: "(error + run_state) \<times> 'w \<Rightarrow> (error + pydict) \<times> 'w" where
  "returned outcome =
     (case outcome of (Inl e, w) \<Rightarrow> (Inl e, w) | (Inr st, w) \<Rightarrow> (Inr (the_results st), w))"

text \<open>
  The parameters each class requires of the keywords, the loop variables at the start
  of a run, and the keywords a call can carry at all.
\<close>

fun required_arguments :: "test_kind \<Rightarrow> string list" where
  "required_arguments ReplayTest = [''log_path'', ''batch_data'']"
| "required_arguments PerformanceTest = [''batch_data'']"
| "required_arguments RecoveryTest = []"

definition keyword :: "pydict \<Rightarrow> string \<Rightarrow> pyval" where
  "keyword kwargs k = (case map_of kwargs k of None \<Rightarrow> VNone | Some v \<Rightarrow> v)"

definition initial_state :: "pydict \<Rightarrow> run_state" where
  "initial_state kwargs =
     \<lparr>the_log_path = keyword kwargs ''log_path'',
      the_batch_data = keyword kwargs ''batch_data'',
      the_results = []\<rparr>"




text \<open>
  A stage that also writes down what it was called with: the world is paired with the
  list of calls (stage name, argument) made so far. Running the recording stages shows
  which argument every stage receives.
\<close>

definition recording :: "'w Stage \<Rightarrow> ('w \<times> (string \<times> pyval) list) Stage" where
  "recording stage =
     \<lparr>name = name stage,
      action = (\<lambda>arg (w, calls).
         case action stage arg w of
           (r, after, w') \<Rightarrow> (r, after, (w', calls @ [(name stage, arg)])))\<rparr>"

text \<open>
  The \<open>response_times\<close> field a result map carries under a key: the entry is a map and
  has the field. \<open>entry_is_map\<close>: the key is absent or its entry is a map.
\<close>

definition response_times_under :: "pydict \<Rightarrow> string \<Rightarrow> pyval option" where
  "response_times_under results k =
     (case map_of results k of
        Some (VDict d) \<Rightarrow> map_of d ''response_times''
      | _ \<Rightarrow> None)"

definition entry_is_map :: "pydict \<Rightarrow> string \<Rightarrow> bool" where
  "entry_is_map results k =
     (case map_of results k of None \<Rightarrow> True | Some (VDict d) \<Rightarrow> True | Some v \<Rightarrow> False)"

definition supplies_data :: "pydict \<Rightarrow> string \<Rightarrow> bool" where
  "supplies_data results k =
     (case response_times_under results k of None \<Rightarrow> False | Some v \<Rightarrow> truthy v)"

section \<open>Lemmas on association lists\<close>

lemma update_new_key: "k \<notin> fst ` set al \<Longrightarrow> AList.update k v al = al @ [(k, v)]"
  by (induction al) auto


lemma map_of_present: "k \<in> fst ` set al \<Longrightarrow> \<exists>v. map_of al k = Some v"
  by (cases "map_of al k") (auto simp: map_of_eq_None_iff)

section \<open>The source recorded by calculate\_metrics\_stage\<close>

text \<open>
  Claim C1. \<open>calculate_metrics_stage\<close> looks for \<open>response_times\<close> under
  \<open>send_batch\<close>, then under \<open>read_log\<close>, and takes the first non-empty one; the
  \<open>source\<close> field is to record the key that supplied the data. The code computes
  \<open>source\<close> from the mere presence of the key \<open>send_batch\<close>: on a result map whose
  \<open>send_batch\<close> entry has no \<open>response_times\<close> (what the earlier send\_batch stage
  returned) and whose \<open>read_log\<close> entry supplies the samples, the metrics and the
  forwarded \<open>response_times\<close> are those of \<open>read_log\<close>, and \<open>source\<close> says
  \<open>send_batch\<close>. The first equation evaluates the stage in exact arithmetic; the
  second holds for every numeric library: whenever the metrics are computed at all,
  the result carries \<open>read_log\<close>'s samples under the source \<open>send_batch\<close>.
\<close>

theorem calculate_metrics_stage_source_mislabelled:
  "calculate_metrics_stage exact_numerics
     [(''send_batch'', VDict [(''status'', VStr ''success'')]),
      (''read_log'', VDict [(''status'', VStr ''success''),
                            (''response_times'', VList [VFloat 1, VFloat 3]),
                            (''entries'', VList [VStr ''Log entry 1'', VStr ''Log entry 2''])])]
   = Inr (VDict
       [(''metrics'', VDict
           [(''min'', VFloat 1), (''max'', VFloat 3), (''median'', VFloat 2),
            (''std_dev'', VFloat 1), (''p90'', VFloat (14 / 5)),
            (''p95'', VFloat (29 / 10)), (''p99'', VFloat (149 / 50))]),
        (''status'', VStr ''success''),
        (''sample_size'', VInt 2),
        (''source'', VStr ''send_batch''),
        (''response_times'', VList [VFloat 1, VFloat 3])]) \<and>
   calculate_metrics_stage lib
     [(''send_batch'', VDict [(''status'', VStr ''success'')]),
      (''read_log'', VDict [(''status'', VStr ''success''),
                            (''response_times'', VList [VFloat 1, VFloat 3]),
                            (''entries'', VList [VStr ''Log entry 1'', VStr ''Log entry 2''])])]
   = (case process_metrics lib (VList [VFloat 1, VFloat 3]) of
        Inl e \<Rightarrow> Inr (error_result e)
      | Inr metrics \<Rightarrow>
          Inr (VDict
            [(''metrics'', VDict metrics),
             (''status'', VStr ''success''),
             (''sample_size'', VInt 2),
             (''source'', VStr ''send_batch''),
             (''response_times'', VList [VFloat 1, VFloat 3])]))"
proof (rule conjI)
  show "calculate_metrics_stage exact_numerics
     [(''send_batch'', VDict [(''status'', VStr ''success'')]),
      (''read_log'', VDict [(''status'', VStr ''success''),
                            (''response_times'', VList [VFloat 1, VFloat 3]),
                            (''entries'', VList [VStr ''Log entry 1'', VStr ''Log entry 2''])])]
   = Inr (VDict
       [(''metrics'', VDict
           [(''min'', VFloat 1), (''max'', VFloat 3), (''median'', VFloat 2),
            (''std_dev'', VFloat 1), (''p90'', VFloat (14 / 5)),
            (''p95'', VFloat (29 / 10)), (''p99'', VFloat (149 / 50))]),
        (''status'', VStr ''success''),
        (''sample_size'', VInt 2),
        (''source'', VStr ''send_batch''),
        (''response_times'', VList [VFloat 1, VFloat 3])])"
    by (simp add: calculate_metrics_stage_def dict_contains_def process_metrics_def
        calculate_metrics_def format_metrics_def exact_numerics_def ex_median_def ex_std_def
        ex_mean_def ex_percentile_def round_half_even_def Let_def power2_eq_square)
next
  show "calculate_metrics_stage lib
     [(''send_batch'', VDict [(''status'', VStr ''success'')]),
      (''read_log'', VDict [(''status'', VStr ''success''),
                            (''response_times'', VList [VFloat 1, VFloat 3]),
                            (''entries'', VList [VStr ''Log entry 1'', VStr ''Log entry 2''])])]
   = (case process_metrics lib (VList [VFloat 1, VFloat 3]) of
        Inl e \<Rightarrow> Inr (error_result e)
      | Inr metrics \<Rightarrow>
          Inr (VDict
            [(''metrics'', VDict metrics),
             (''status'', VStr ''success''),
             (''sample_size'', VInt 2),
             (''source'', VStr ''send_batch''),
             (''response_times'', VList [VFloat 1, VFloat 3])]))"
    by (simp add: calculate_metrics_stage_def dict_contains_def split: sum.splits)
qed

section \<open>What calculate\_metrics\_stage needs\<close>

text \<open>
  When the \<open>send_batch\<close> and \<open>read_log\<close> entries, where present, are maps, the search
  ends without an exception, and the stage raises the missing-data ValueError exactly
  when neither entry supplies a non-empty \<open>response_times\<close>.
\<close>

lemma find_response_times_maps:
  assumes "entry_is_map results ''send_batch''" "entry_is_map results ''read_log''"
  shows "\<exists>rt. find_response_times results [''send_batch'', ''read_log''] VNone = Inr rt \<and>
           truthy rt = (supplies_data results ''send_batch'' \<or> supplies_data results ''read_log'')"
  using assms
  by (auto simp: entry_is_map_def supplies_data_def response_times_under_def
      split: option.splits pyval.splits)

lemma missing_data_for_map_entries:
  assumes "entry_is_map results ''send_batch''" "entry_is_map results ''read_log''"
  shows "(calculate_metrics_stage lib results = Inl (ValueError ''No response times found in results''))
        = (\<not> supplies_data results ''send_batch'' \<and> \<not> supplies_data results ''read_log'')"
proof -
  from find_response_times_maps [OF assms] obtain rt where
    f: "find_response_times results [''send_batch'', ''read_log''] VNone = Inr rt" and
    t: "truthy rt = (supplies_data results ''send_batch'' \<or> supplies_data results ''read_log'')"
    by blast
  have "(calculate_metrics_stage lib results = Inl (ValueError ''No response times found in results''))
        = (\<not> truthy rt)"
    using f by (simp add: calculate_metrics_stage_def split: sum.splits)
  with t show ?thesis by simp
qed

text \<open>
  Claim C5. The result map \<^verbatim>\<open>{'send_batch': True}\<close> carries a \<open>response_times\<close>
  field under neither key, so the stage is to fail with the missing-data error, the
  ValueError its docstring announces for missing or invalid data. The code calls
  \<^verbatim>\<open>.get\<close> on the entry before it has looked at it, and the stage ends with an
  AttributeError instead, whatever the numeric library.
\<close>

theorem calculate_metrics_stage_entry_not_map:
  "calculate_metrics_stage lib [(''send_batch'', VBool True)]
     = Inl (AttributeError (quoted ''bool'' @ '' object has no attribute '' @ quoted ''get'')) \<and>
   calculate_metrics_stage lib [(''send_batch'', VBool True)]
     \<noteq> Inl (ValueError ''No response times found in results'')"
  by (simp add: calculate_metrics_stage_def no_attribute_def)

section \<open>The metrics reported and the samples forwarded\<close>



section \<open>What create\_graphs\_stage needs\<close>

text \<open>
  \<open>create_graphs_stage\<close> reads \<open>response_times\<close> from the \<open>calculate_metrics\<close> entry
  only. When that entry is absent, or is a map whose \<open>response_times\<close> is absent or
  empty, the stage raises the missing-data ValueError and the world is as before: no
  plot has been drawn, whatever the plotting backend.
\<close>

lemma create_graphs_needs_samples:
  assumes "map_of results ''calculate_metrics'' = None \<or>
     (\<exists>d. map_of results ''calculate_metrics'' = Some (VDict d) \<and>
          (map_of d ''response_times'' = None \<or>
           (\<exists>v. map_of d ''response_times'' = Some v \<and> \<not> truthy v)))"
  shows "create_graphs_stage backend results w =
        (Inl (ValueError ''No response times found in metrics results''), w)"
  using assms by (auto simp: create_graphs_stage_def Let_def split: option.splits)

text \<open>
  Claim C9. In the result map \<^verbatim>\<open>{'calculate_metrics': True}\<close> the \<open>calculate_metrics\<close>
  entry has no \<open>response_times\<close>, so the stage is to fail with the missing-data error,
  the ValueError its docstring announces for missing data. The code calls \<^verbatim>\<open>.get\<close> on
  the entry before it has looked at it, and the stage ends with an AttributeError
  instead (before any drawing: the world is unchanged).
\<close>

theorem create_graphs_stage_entry_not_map:
  "create_graphs_stage backend [(''calculate_metrics'', VBool True)] w
     = (Inl (AttributeError (quoted ''bool'' @ '' object has no attribute '' @ quoted ''get'')), w) \<and>
   create_graphs_stage backend [(''calculate_metrics'', VBool True)] w
     \<noteq> (Inl (ValueError ''No response times found in metrics results''), w)"
  by (simp add: create_graphs_stage_def no_attribute_def)

section \<open>The two registries\<close>

text \<open>
  Claim C7, as amended. \<open>register\<close> tests the class first: it fails with
  InvalidCapability whenever the class does not inherit from \<open>Test\<close>, also when the
  name is already registered, and with DuplicateKind whenever the name is already
  registered and the class does inherit from \<open>Test\<close>; otherwise it appends the entry.
  Inheriting from \<open>Test\<close> is all that is tested: a subclass of \<open>Test\<close> that leaves
  \<open>run\<close> undefined is registered like any other, and it is \<open>create_test\<close> that fails
  on it, with the TypeError of instantiating an abstract class. \<open>unregister\<close> of an
  absent name returns the registry unchanged.
\<close>

theorem register_unregister_policy:
  "(\<not> issubclass_Test test_class \<longrightarrow>
      register registry test_type test_class = Inl (InvalidCapability test_class)) \<and>
   (issubclass_Test test_class \<and> test_type \<in> fst ` set registry \<longrightarrow>
      register registry test_type test_class = Inl (DuplicateKind test_type)) \<and>
   (issubclass_Test test_class \<and> test_type \<notin> fst ` set registry \<longrightarrow>
      register registry test_type test_class = Inr (registry @ [(test_type, test_class)])) \<and>
   (test_type \<notin> fst ` set registry \<longrightarrow> unregister registry test_type = registry) \<and>
   (issubclass_Test test_class \<and> \<not> defines_run test_class \<and>
    map_of registry test_type = Some test_class \<longrightarrow>
      create_test registry test_type = Inl (cannot_instantiate test_class))"
  by (simp add: register_def unregister_def update_new_key create_test_def)

theorem register_unregister_policy_witness:
  "register module_registry ''replay'' (TestClass ReplayTest) = Inl (DuplicateKind ''replay'') \<and>
   register module_registry ''custom'' (OtherClass ''object'' False False)
     = Inl (InvalidCapability (OtherClass ''object'' False False)) \<and>
   register module_registry ''custom'' (OtherClass ''CustomTest'' True True)
     = Inr (module_registry @ [(''custom'', OtherClass ''CustomTest'' True True)]) \<and>
   unregister module_registry ''custom'' = module_registry \<and>
   create_test [(''norun'', OtherClass ''NoRun'' True False)] ''norun''
     = Inl (cannot_instantiate (OtherClass ''NoRun'' True False))"
  using register_unregister_policy [of "TestClass ReplayTest" module_registry "''replay''"]
        register_unregister_policy [of "OtherClass ''object'' False False" module_registry "''custom''"]
        register_unregister_policy [of "OtherClass ''CustomTest'' True True" module_registry "''custom''"]
        register_unregister_policy [of "OtherClass ''NoRun'' True False"
          "[(''norun'', OtherClass ''NoRun'' True False)]" "''norun''"]
  by (simp add: module_registry_def)

theorem register_duplicate_counterexample:
  "''replay'' \<in> fst ` set module_registry \<and>
   register module_registry ''replay'' (OtherClass ''object'' False False)
     = Inl (InvalidCapability (OtherClass ''object'' False False)) \<and>
   register module_registry ''replay'' (OtherClass ''object'' False False)
     \<noteq> Inl (DuplicateKind ''replay'') \<and>
   \<not> defines_run (OtherClass ''NoRun'' True False) \<and>
   register module_registry ''norun'' (OtherClass ''NoRun'' True False)
     = Inr (module_registry @ [(''norun'', OtherClass ''NoRun'' True False)])"
  by (simp add: module_registry_def register_def InvalidCapability_def DuplicateKind_def)

section \<open>The strategy table\<close>






section \<open>The stage loops\<close>

text \<open>
  The loops of the three classes are instances of \<open>run_loop\<close>, and \<open>run\<close> is the loop
  started from the keywords, or the TypeError of the call when a required parameter is
  missing.
\<close>

lemma ReplayTest_loop_eq:
  "ReplayTest_loop app_name log_path batch_data results stages w =
     returned (run_loop ReplayTest app_name
       \<lparr>the_log_path = log_path, the_batch_data = batch_data, the_results = results\<rparr> stages w)"
proof (induction stages arbitrary: log_path batch_data results w)
  case Nil
  show ?case by (simp add: returned_def)
next
  case (Cons s stages)
  show ?case
    by (simp add: Cons.IH execute_def stage_argument_def stored_def split: prod.splits sum.splits)
       (simp add: returned_def)
qed

lemma PerformanceTest_loop_eq:
  "PerformanceTest_loop app_name batch_data results stages w =
     returned (run_loop PerformanceTest app_name
       \<lparr>the_log_path = log_path, the_batch_data = batch_data, the_results = results\<rparr> stages w)"
proof (induction stages arbitrary: batch_data results w)
  case Nil
  show ?case by (simp add: returned_def)
next
  case (Cons s stages)
  show ?case
    by (simp add: Cons.IH execute_def stage_argument_def stored_def split: prod.splits sum.splits)
       (simp add: returned_def)
qed

lemma RecoveryTest_loop_eq:
  "RecoveryTest_loop app_name results stages w =
     returned (run_loop RecoveryTest app_name
       \<lparr>the_log_path = log_path, the_batch_data = batch_data, the_results = results\<rparr> stages w)"
proof (induction stages arbitrary: results w)
  case Nil
  show ?case by (simp add: returned_def)
next
  case (Cons s stages)
  show ?case
    by (simp add: Cons.IH execute_def stage_argument_def stored_def split: prod.splits sum.splits)
       (simp add: returned_def)
qed

lemma run_eq:
  assumes "set (required_arguments kind) \<subseteq> fst ` set kwargs"
  shows "run kind app_name stages kwargs w =
           returned (run_loop kind app_name (initial_state kwargs) stages w)"
proof (cases kind)
  case ReplayTest
  with assms have "''log_path'' \<in> fst ` set kwargs" "''batch_data'' \<in> fst ` set kwargs"
    by simp_all
  then obtain lp bd where
    "map_of kwargs ''log_path'' = Some lp" "map_of kwargs ''batch_data'' = Some bd"
    using map_of_present by metis
  with ReplayTest show ?thesis
    by (simp add: ReplayTest_run_def ReplayTest_loop_eq initial_state_def keyword_def)
next
  case PerformanceTest
  with assms have "''batch_data'' \<in> fst ` set kwargs" by simp
  then obtain bd where "map_of kwargs ''batch_data'' = Some bd"
    using map_of_present by metis
  with PerformanceTest show ?thesis
    by (simp add: PerformanceTest_run_def initial_state_def keyword_def
        PerformanceTest_loop_eq [where log_path = "keyword kwargs ''log_path''"])
next
  case RecoveryTest
  then show ?thesis
    by (simp add: RecoveryTest_run_def initial_state_def
        RecoveryTest_loop_eq [where log_path = "keyword kwargs ''log_path''"
          and batch_data = "keyword kwargs ''batch_data''"])
qed

lemma run_missing:
  assumes "\<not> set (required_arguments kind) \<subseteq> fst ` set kwargs"
  shows "run kind app_name stages kwargs w =
           (Inl (missing_arguments kind
              (filter (\<lambda>n. n \<notin> fst ` set kwargs) (required_arguments kind))), w)"
proof (cases kind)
  case ReplayTest
  show ?thesis
  proof (cases "map_of kwargs ''log_path''")
    case None
    then have a: "''log_path'' \<notin> fst ` set kwargs" by (simp add: map_of_eq_None_iff)
    show ?thesis
    proof (cases "map_of kwargs ''batch_data''")
      case n2: None
      then have "''batch_data'' \<notin> fst ` set kwargs" by (simp add: map_of_eq_None_iff)
      with a None n2 ReplayTest show ?thesis by simp
    next
      case (Some bd)
      then have "''batch_data'' \<in> fst ` set kwargs" by (metis map_of_eq_None_iff option.distinct(1))
      with a None Some ReplayTest show ?thesis by simp
    qed
  next
    case (Some lp)
    then have a: "''log_path'' \<in> fst ` set kwargs" by (metis map_of_eq_None_iff option.distinct(1))
    show ?thesis
    proof (cases "map_of kwargs ''batch_data''")
      case None
      then have "''batch_data'' \<notin> fst ` set kwargs" by (simp add: map_of_eq_None_iff)
      with a None Some ReplayTest show ?thesis by simp
    next
      case s2: (Some bd)
      then have "''batch_data'' \<in> fst ` set kwargs" by (metis map_of_eq_None_iff option.distinct(1))
      with a assms ReplayTest show ?thesis by simp
    qed
  qed
next
  case PerformanceTest
  with assms have "''batch_data'' \<notin> fst ` set kwargs" by simp
  then have "map_of kwargs ''batch_data'' = None" by (simp add: map_of_eq_None_iff)
  with PerformanceTest \<open>''batch_data'' \<notin> fst ` set kwargs\<close> show ?thesis by simp
next
  case RecoveryTest
  with assms show ?thesis by simp
qed
















section \<open>The keys of a returned result map\<close>










section \<open>Failure of a stage\<close>





text \<open>
  The recording stages: the recorded run returns what the plain run returns, every
  recorded call carries the object the loop hands a stage of that name, and a
  successful run has called every stage, in order.
\<close>

lemma name_recording: "name (recording s) = name s"
  by (simp add: recording_def)

lemma action_recording:
  "action (recording s) arg (w, cs) =
     (case action s arg w of (r, after, w') \<Rightarrow> (r, after, (w', cs @ [(name s, arg)])))"
  by (simp add: recording_def)

lemma stage_argument_recording:
  "stage_argument kind app_name st (recording s) = stage_argument kind app_name st s"
  by (simp add: stage_argument_def name_recording)

lemma stored_recording: "stored kind (recording s) v after st = stored kind s v after st"
  by (simp add: stored_def name_recording)

lemma recording_transparent:
  "run_loop kind app_name st (map recording stages) (w, cs) = (res, (w', cs')) \<Longrightarrow>
     run_loop kind app_name st stages w = (res, w')"
proof (induction stages arbitrary: st w cs)
  case Nil
  then show ?case by simp
next
  case (Cons s stages)
  obtain r after w1 where act: "action s (stage_argument kind app_name st s) w = (r, after, w1)"
    by (cases "action s (stage_argument kind app_name st s) w") auto
  show ?case
  proof (cases r)
    case (Inl e)
    with act Cons.prems show ?thesis
      by (simp add: stage_argument_recording action_recording)
  next
    case (Inr v)
    with act Cons.prems have
      "run_loop kind app_name (stored kind s v after st) (map recording stages)
         (w1, cs @ [(name s, stage_argument kind app_name st s)]) = (res, (w', cs'))"
      by (simp add: stage_argument_recording action_recording stored_recording)
    from Cons.IH [OF this] act Inr show ?thesis by simp
  qed
qed

lemma recording_calls:
  "run_loop kind app_name st (map recording stages) (w, cs) = (res, (w', cs')) \<Longrightarrow>
     \<exists>new. cs' = cs @ new \<and>
           (\<forall>(n, a) \<in> set new. \<exists>st0. a = handed app_name st0 (slot_of kind n)) \<and>
           (\<forall>x. res = Inr x \<longrightarrow> map fst new = map name stages)"
proof (induction stages arbitrary: st w cs)
  case Nil
  then show ?case by simp
next
  case (Cons s stages)
  obtain r after w1 where act: "action s (stage_argument kind app_name st s) w = (r, after, w1)"
    by (cases "action s (stage_argument kind app_name st s) w") auto
  let ?call = "(name s, stage_argument kind app_name st s)"
  have call: "\<exists>st0. snd ?call = handed app_name st0 (slot_of kind (fst ?call))"
    by (auto simp: stage_argument_def)
  show ?case
  proof (cases r)
    case (Inl e)
    with act Cons.prems have "cs' = cs @ [?call]" "res = Inl e"
      by (simp_all add: stage_argument_recording action_recording)
    with call show ?thesis by auto
  next
    case (Inr v)
    with act Cons.prems have
      "run_loop kind app_name (stored kind s v after st) (map recording stages)
         (w1, cs @ [?call]) = (res, (w', cs'))"
      by (simp add: stage_argument_recording action_recording stored_recording)
    from Cons.IH [OF this] obtain new where
      n: "cs' = (cs @ [?call]) @ new"
         "\<forall>(n, a) \<in> set new. \<exists>st0. a = handed app_name st0 (slot_of kind n)"
         "\<forall>x. res = Inr x \<longrightarrow> map fst new = map name stages"
      by blast
    let ?new = "?call # new"
    have "cs' = cs @ ?new" using n(1) by simp
    moreover have "\<forall>(n, a) \<in> set ?new. \<exists>st0. a = handed app_name st0 (slot_of kind n)"
      using n(2) call by simp
    moreover have "\<forall>x. res = Inr x \<longrightarrow> map fst ?new = map name (s # stages)" using n(3) by simp
    ultimately show ?thesis by blast
  qed
qed

lemma run_recording:
  assumes "run kind app_name (map recording stages) kwargs (w, []) = (res, (w', calls))"
  shows "run kind app_name stages kwargs w = (res, w')"
    and "set (required_arguments kind) \<subseteq> fst ` set kwargs \<Longrightarrow>
           (\<forall>(n, a) \<in> set calls. \<exists>st0. a = handed app_name st0 (slot_of kind n)) \<and>
           (\<forall>x. res = Inr x \<longrightarrow> map fst calls = map name stages)"
proof -
  show "run kind app_name stages kwargs w = (res, w')"
  proof (cases "set (required_arguments kind) \<subseteq> fst ` set kwargs")
    case True
    obtain rl where
      l: "run_loop kind app_name (initial_state kwargs) (map recording stages) (w, []) = (rl, (w', calls))"
      and r: "res = (case rl of Inl e \<Rightarrow> Inl e | Inr st \<Rightarrow> Inr (the_results st))"
      using assms
      by (cases "run_loop kind app_name (initial_state kwargs) (map recording stages) (w, [])")
         (auto simp: run_eq [OF True] returned_def split: sum.splits)
    from recording_transparent [OF l] r show ?thesis
      by (simp add: run_eq [OF True] returned_def split: sum.splits)
  next
    case False
    from run_missing [OF False, of app_name "map recording stages" "(w, [])"]
      run_missing [OF False, of app_name stages w] assms
    show ?thesis by simp
  qed
next
  assume req: "set (required_arguments kind) \<subseteq> fst ` set kwargs"
  obtain rl where
    l: "run_loop kind app_name (initial_state kwargs) (map recording stages) (w, []) = (rl, (w', calls))"
    and r: "res = (case rl of Inl e \<Rightarrow> Inl e | Inr st \<Rightarrow> Inr (the_results st))"
    using assms
    by (cases "run_loop kind app_name (initial_state kwargs) (map recording stages) (w, [])")
       (auto simp: run_eq [OF req] returned_def split: sum.splits)
  from recording_calls [OF l] obtain new where
    n: "calls = [] @ new"
       "\<forall>(n, a) \<in> set new. \<exists>st0. a = handed app_name st0 (slot_of kind n)"
       "\<forall>x. rl = Inr x \<longrightarrow> map fst new = map name stages"
    by blast
  from n(1) have eq: "new = calls" by simp
  have "\<forall>x. res = Inr x \<longrightarrow> map fst calls = map name stages"
    using n(3) r eq by (auto split: sum.splits)
  with n(2) eq show "(\<forall>(n, a) \<in> set calls. \<exists>st0. a = handed app_name st0 (slot_of kind n)) \<and>
           (\<forall>x. res = Inr x \<longrightarrow> map fst calls = map name stages)"
    by simp
qed




section \<open>The arguments the Recovery kind hands out\<close>

lemma strategy_execute_RecoveryTest:
  "strategy_execute strategy RecoveryTest app_name stages w = run RecoveryTest app_name stages [] w"
  by (cases strategy) (simp_all add: RecoveryTest_run_def)

text \<open>
  Claim C10. In every run of the Recovery kind, whatever the keyword arguments, a stage
  named \<open>read_log\<close> is called with the string \<open>dummy_recovery_log.txt\<close>: the calls
  recorded by the recording stages show it, the recorded run returns what the plain run
  returns, and a successful run has called every stage. The keyword arguments have no
  effect on the run, and every execution strategy runs the Recovery kind in the same
  way.
\<close>

theorem recovery_log_path_fixed:
  "(run RecoveryTest app_name (map recording stages) kwargs (w, []) = (res, (w', calls))
      \<longrightarrow> run RecoveryTest app_name stages kwargs w = (res, w') \<and>
          (\<forall>(n, a) \<in> set calls. n = ''read_log'' \<longrightarrow> a = VStr ''dummy_recovery_log.txt'') \<and>
          (\<forall>r. res = Inr r \<longrightarrow> map fst calls = map name stages)) \<and>
   run RecoveryTest app_name stages kwargs w = run RecoveryTest app_name stages [] w \<and>
   strategy_execute strategy RecoveryTest app_name stages w = run RecoveryTest app_name stages [] w"
proof -
  have 1: "run RecoveryTest app_name (map recording stages) kwargs (w, []) = (res, (w', calls))
      \<longrightarrow> run RecoveryTest app_name stages kwargs w = (res, w') \<and>
          (\<forall>(n, a) \<in> set calls. n = ''read_log'' \<longrightarrow> a = VStr ''dummy_recovery_log.txt'') \<and>
          (\<forall>r. res = Inr r \<longrightarrow> map fst calls = map name stages)"
  proof (rule impI)
    assume h: "run RecoveryTest app_name (map recording stages) kwargs (w, []) = (res, (w', calls))"
    have req: "set (required_arguments RecoveryTest) \<subseteq> fst ` set kwargs" by simp
    note a = run_recording(1) [OF h]
    from run_recording(2) [OF h req] have
      b: "\<forall>(n, a) \<in> set calls. \<exists>st0. a = handed app_name st0 (slot_of RecoveryTest n)" and
      c: "\<forall>r. res = Inr r \<longrightarrow> map fst calls = map name stages"
      by simp_all
    have rl: "\<forall>(n, a) \<in> set calls. n = ''read_log'' \<longrightarrow> a = VStr ''dummy_recovery_log.txt''"
    proof (clarify)
      fix a assume "(''read_log'', a) \<in> set calls"
      with b obtain st0 where "a = handed app_name st0 (slot_of RecoveryTest ''read_log'')"
        by fastforce
      then show "a = VStr ''dummy_recovery_log.txt''" by simp
    qed
    from a rl c show "run RecoveryTest app_name stages kwargs w = (res, w') \<and>
          (\<forall>(n, a) \<in> set calls. n = ''read_log'' \<longrightarrow> a = VStr ''dummy_recovery_log.txt'') \<and>
          (\<forall>r. res = Inr r \<longrightarrow> map fst calls = map name stages)"
      by (intro conjI)
  qed
  have 2: "run RecoveryTest app_name stages kwargs w = run RecoveryTest app_name stages [] w"
    by (simp add: RecoveryTest_run_def)
  have 3: "strategy_execute strategy RecoveryTest app_name stages w = run RecoveryTest app_name stages [] w"
    by (rule strategy_execute_RecoveryTest)
  from 1 2 3 show ?thesis by (intro conjI)
qed

theorem recovery_log_path_fixed_witness:
  "run RecoveryTest ''MyApp''
      (map recording [\<lparr>name = ''connect'', action = connect_stage\<rparr>,
                      \<lparr>name = ''read_log'', action = (\<lambda>log_path w. (Inr log_path, log_path, w))\<rparr>])
      [(''log_path'', VStr ''app.log'')] ((), [])
    = (Inr [(''connect'', VBool True), (''read_log'', VStr ''dummy_recovery_log.txt'')],
       ((), [(''connect'', VStr ''MyApp''), (''read_log'', VStr ''dummy_recovery_log.txt'')])) \<and>
   run RecoveryTest ''MyApp''
      [\<lparr>name = ''connect'', action = connect_stage\<rparr>,
       \<lparr>name = ''read_log'', action = (\<lambda>log_path w. (Inr log_path, log_path, w))\<rparr>]
      [(''log_path'', VStr ''app.log'')] ()
    = (Inr [(''connect'', VBool True), (''read_log'', VStr ''dummy_recovery_log.txt'')], ())"
proof -
  let ?stages = "[\<lparr>name = ''connect'', action = connect_stage\<rparr>,
                  \<lparr>name = ''read_log'', action = (\<lambda>log_path w. (Inr log_path, log_path, w))\<rparr>] :: unit Stage list"
  let ?calls = "[(''connect'', VStr ''MyApp''), (''read_log'', VStr ''dummy_recovery_log.txt'')]"
  let ?res = "Inr [(''connect'', VBool True), (''read_log'', VStr ''dummy_recovery_log.txt'')] :: error + pydict"
  have h: "run RecoveryTest ''MyApp'' (map recording ?stages) [(''log_path'', VStr ''app.log'')] ((), [])
      = (?res, ((), ?calls))"
    by (simp add: RecoveryTest_run_def execute_def name_recording action_recording connect_stage_def dict_set_def)
  have "run RecoveryTest ''MyApp'' ?stages [(''log_path'', VStr ''app.log'')] () = (?res, ())"
    by (rule recovery_log_path_fixed [THEN conjunct1, rule_format, OF h, THEN conjunct1])
  with h show ?thesis by (rule conjI)
qed

end
